theory Spec2Isabelle
  imports Main "HOL-Library.Sublist"
begin

section \<open>Python values used by the joke bot\<close>

text \<open>
  The repository is a Flask application (\<^verbatim>\<open>app.py\<close>) with an analytics log
  (\<^verbatim>\<open>analytics.py\<close>). Python strings are modelled as \<^typ>\<open>string\<close>: a character is
  one of the 256 code points U+0000 to U+00FF (Latin-1), read with \<^const>\<open>of_char\<close>. On
  strings of these characters the functions below are Python's \<^verbatim>\<open>str\<close> methods
  (CPython 3.11); code points above U+00FF are not part of the model.
\<close>

subsection \<open>String methods\<close>

text \<open>
  \<^verbatim>\<open>str.lower()\<close>: the upper-case letters are A to Z (65 to 90) and the accented
  capitals U+00C0 to U+00DE without the multiplication sign U+00D7 (192 to 214 and
  216 to 222); each one is mapped to the character 32 places after it, every other
  character to itself.
\<close>

definition char_lower :: "char \<Rightarrow> char" where
  "char_lower c =
     (let n = (of_char c :: nat) in
      if (65 \<le> n \<and> n \<le> 90) \<or> (192 \<le> n \<and> n \<le> 214) \<or> (216 \<le> n \<and> n \<le> 222)
      then char_of (n + 32) else c)"

definition lower :: "string \<Rightarrow> string" where
  "lower s = map char_lower s"

text \<open>\<^verbatim>\<open>t in s\<close> on strings: \<open>t\<close> occurs in \<open>s\<close> as a contiguous run.\<close>

definition py_in :: "string \<Rightarrow> string \<Rightarrow> bool" where
  "py_in t s = sublist t s"

text \<open>
  \<^verbatim>\<open>str.strip()\<close>: whitespace is removed at both ends. The characters for which
  \<^verbatim>\<open>str.isspace\<close> holds are 9 to 13, 28 to 31, 32, the next-line control U+0085 (133)
  and the no-break space U+00A0 (160).
\<close>

definition is_space :: "char \<Rightarrow> bool" where
  "is_space c =
     (let n = (of_char c :: nat) in
      (9 \<le> n \<and> n \<le> 13) \<or> (28 \<le> n \<and> n \<le> 32) \<or> n = 133 \<or> n = 160)"

definition strip :: "string \<Rightarrow> string" where
  "strip s = rev (dropWhile is_space (rev (dropWhile is_space s)))"

definition endswith :: "string \<Rightarrow> string \<Rightarrow> bool" where
  "endswith s t = suffix t s"

text \<open>\<^verbatim>\<open>str.split(',')\<close>: the pieces between commas; the empty string gives one empty piece.\<close>

fun split_comma :: "string \<Rightarrow> string list" where
  "split_comma [] = [[]]"
| "split_comma (c # cs) =
     (if c = CHR '','' then [] # split_comma cs
      else (case split_comma cs of [] \<Rightarrow> [[c]] | p # ps \<Rightarrow> (c # p) # ps))"

text \<open>
  \<^verbatim>\<open>str.isdigit()\<close>: the string is not empty and every character is a digit. The
  digits are the decimal digits 0 to 9 (48 to 57), for which \<^verbatim>\<open>str.isdecimal\<close> holds,
  and the superscripts two, three and one (178, 179 and 185), which are digits that
  are not decimal.
\<close>

definition is_decimal :: "char \<Rightarrow> bool" where
  "is_decimal c = (let n = (of_char c :: nat) in 48 \<le> n \<and> n \<le> 57)"

definition is_digit :: "char \<Rightarrow> bool" where
  "is_digit c = (let n = (of_char c :: nat) in (48 \<le> n \<and> n \<le> 57) \<or> n = 178 \<or> n = 179 \<or> n = 185)"

definition isdigit :: "string \<Rightarrow> bool" where
  "isdigit s = (s \<noteq> [] \<and> list_all is_digit s)"

text \<open>The value of a string of decimal digits.\<close>

definition int_of_digits :: "string \<Rightarrow> int" where
  "int_of_digits s = foldl (\<lambda>n c. 10 * n + int (of_char c - 48)) 0 s"

text \<open>\<^verbatim>\<open>str(n)\<close> for a length or a count: the decimal digits of a natural number.\<close>

fun str_nat :: "nat \<Rightarrow> string" where
  "str_nat n =
     (if n < 10 then [char_of (48 + n)]
      else str_nat (n div 10) @ [char_of (48 + n mod 10)])"

declare str_nat.simps [simp del]

text \<open>
  \<^verbatim>\<open>re.search(r'how many (\w+)', s)\<close> and \<^verbatim>\<open>match.group(1)\<close>: the leftmost place
  where \<^verbatim>\<open>how many \<close> is followed by a word character, and the longest run of word
  characters there. \<open>None\<close> is Python's \<^verbatim>\<open>None\<close> (no match). The pattern is a
  \<^verbatim>\<open>str\<close> pattern, so \<^verbatim>\<open>\w\<close> is the underscore and every alphanumeric character: the
  ASCII letters and digits, and in the upper half the ordinal indicators (170, 186),
  the micro sign (181), the superscript digits (178, 179, 185), the fractions (188 to
  190) and the accented letters (192 to 255 without 215 and 247).
\<close>

definition is_word_char :: "char \<Rightarrow> bool" where
  "is_word_char c =
     (let n = (of_char c :: nat) in
        (48 \<le> n \<and> n \<le> 57) \<or> (65 \<le> n \<and> n \<le> 90) \<or> n = 95 \<or> (97 \<le> n \<and> n \<le> 122) \<or>
        n = 170 \<or> n = 178 \<or> n = 179 \<or> n = 181 \<or> n = 185 \<or> n = 186 \<or>
        (188 \<le> n \<and> n \<le> 190) \<or> (192 \<le> n \<and> n \<le> 214) \<or> (216 \<le> n \<and> n \<le> 246) \<or>
        (248 \<le> n \<and> n \<le> 255))"

fun re_search_how_many :: "string \<Rightarrow> string option" where
  "re_search_how_many [] = None"
| "re_search_how_many (c # cs) =
     (if prefix ''how many '' (c # cs) \<and> takeWhile is_word_char (drop 9 (c # cs)) \<noteq> []
      then Some (takeWhile is_word_char (drop 9 (c # cs)))
      else re_search_how_many cs)"

text \<open>\<^verbatim>\<open>sep.join(xs)\<close>.\<close>

fun join :: "string \<Rightarrow> string list \<Rightarrow> string" where
  "join sep [] = []"
| "join sep [x] = x"
| "join sep (x # y # ys) = x @ sep @ join sep (y # ys)"

subsection \<open>JSON values and exceptions\<close>

text \<open>
  The body of a request is a JSON object, a Python \<^verbatim>\<open>dict\<close> after parsing.
  \<open>truthy\<close> is Python's truth value of such a value, the test behind \<^verbatim>\<open>not v\<close>.
\<close>

datatype json =
    JNull
  | JBool bool
  | JNum int
  | JStr string
  | JArr "json list"
  | JObj "(string \<times> json) list"

fun truthy :: "json \<Rightarrow> bool" where
  "truthy JNull = False"
| "truthy (JBool b) = b"
| "truthy (JNum n) = (n \<noteq> 0)"
| "truthy (JStr s) = (s \<noteq> [])"
| "truthy (JArr xs) = (xs \<noteq> [])"
| "truthy (JObj kvs) = (kvs \<noteq> [])"

type_synonym dict = "string \<rightharpoonup> json"

text \<open>\<^verbatim>\<open>d.get(k, default)\<close>; \<^verbatim>\<open>d.get(k)\<close> is \<open>dict_get d k JNull\<close>.\<close>

definition dict_get :: "dict \<Rightarrow> string \<Rightarrow> json \<Rightarrow> json" where
  "dict_get d k dflt = (case d k of None \<Rightarrow> dflt | Some v \<Rightarrow> v)"

text \<open>A raised exception: its class name and its message, \<^verbatim>\<open>str(e)\<close>.\<close>

datatype exn = Exception string string

fun str_exn :: "exn \<Rightarrow> string" where
  "str_exn (Exception cls msg) = msg"

text \<open>
  \<^verbatim>\<open>int(s)\<close> at line 279, where \<open>s\<close> is a stripped string for which \<^verbatim>\<open>isdigit\<close> holds, so
  that there is no sign, no whitespace and no underscore in it. The conversion counts
  the decimal digits at the start of the string and raises \<^verbatim>\<open>ValueError\<close> when there
  are more than \<^verbatim>\<open>sys.get_int_max_str_digits()\<close> of them (4300 unless the interpreter is
  configured otherwise); it raises \<^verbatim>\<open>ValueError\<close> as well when a character is not a decimal
  digit, with at most 200 characters of the \<^verbatim>\<open>repr\<close> of the string in the message (the
  string between two apostrophes, as its characters are printable digits).
\<close>

definition int_max_str_digits :: nat where
  "int_max_str_digits = 4300"

definition sq :: string where
  "sq = [char_of (39 :: nat)]"

definition py_int :: "string \<Rightarrow> exn + int" where
  "py_int s =
     (let digits = length (takeWhile is_decimal s) in
      if digits > int_max_str_digits
      then Inl (Exception ''ValueError''
             (''Exceeds the limit ('' @ str_nat int_max_str_digits @
              '' digits) for integer string conversion: value has '' @ str_nat digits @
              '' digits; use sys.set_int_max_str_digits() to increase the limit''))
      else if s \<noteq> [] \<and> list_all is_decimal s then Inr (int_of_digits s)
      else Inl (Exception ''ValueError''
             (''invalid literal for int() with base 10: '' @ take 200 (sq @ s @ sq))))"

section \<open>The corpus\<close>

text \<open>
  One entry of \<^verbatim>\<open>jokes.json\<close>. The keys the application reads are \<^verbatim>\<open>category\<close>,
  \<^verbatim>\<open>type\<close>, \<^verbatim>\<open>joke\<close>, \<^verbatim>\<open>setup\<close>, \<^verbatim>\<open>delivery\<close> and \<^verbatim>\<open>id\<close>; a key that is absent
  is \<open>None\<close>, and a key that is present holds a string (\<^verbatim>\<open>id\<close>: a number), as the
  entries written by \<^verbatim>\<open>fetch_jokes.py\<close> do. \<open>j_str\<close> is the text \<^verbatim>\<open>str(joke)\<close> of
  the whole dictionary, which also depends on keys that are not listed here.
\<close>

record joke =
  j_category :: "string option"
  j_type :: "string option"
  j_joke :: "string option"
  j_setup :: "string option"
  j_delivery :: "string option"
  j_id :: "int option"
  j_str :: string

text \<open>\<^verbatim>\<open>joke.get(key, '')\<close> on a string-valued key.\<close>

definition get_str :: "string option \<Rightarrow> string \<Rightarrow> string" where
  "get_str v dflt = (case v of None \<Rightarrow> dflt | Some s \<Rightarrow> s)"

text \<open>\<^verbatim>\<open>format_joke\<close> (app.py, lines 33 to 39): the derived text of a joke.\<close>

definition format_joke :: "joke \<Rightarrow> string" where
  "format_joke joke =
     (if j_type joke = Some ''single'' then get_str (j_joke joke) ''''
      else if j_type joke = Some ''twopart''
        then get_str (j_setup joke) '''' @ '' '' @ get_str (j_delivery joke) ''''
      else j_str joke)"

text \<open>
  The inner loop that app.py writes at lines 201 to 204, 288 to 291, 297 to 300 and
  320 to 323: the first joke of the corpus whose derived text is the document, at
  which the loop appends it and breaks; \<open>None\<close> when the loop ends without a match.
\<close>

fun reconcile :: "joke list \<Rightarrow> string \<Rightarrow> joke option" where
  "reconcile [] doc = None"
| "reconcile (joke # all_jokes) doc =
     (if format_joke joke = doc then Some joke else reconcile all_jokes doc)"

text \<open>
  The outer loop over documents (lines 200 to 204 and 319 to 323): each document is
  looked up in turn, a match is appended to the list built so far.
\<close>

fun reconcile_docs :: "joke list \<Rightarrow> string list \<Rightarrow> joke list \<Rightarrow> joke list" where
  "reconcile_docs all_jokes [] matching = matching"
| "reconcile_docs all_jokes (doc # docs) matching =
     reconcile_docs all_jokes docs
       (case reconcile all_jokes doc of None \<Rightarrow> matching | Some joke \<Rightarrow> matching @ [joke])"

section \<open>The analytics log\<close>

text \<open>
  \<^verbatim>\<open>analytics.py\<close>: every event is a dictionary with a \<^verbatim>\<open>timestamp\<close>, an
  \<^verbatim>\<open>event_type\<close> and the fields of its kind. The constructor is the event type
  (\<^verbatim>\<open>query\<close>, \<^verbatim>\<open>feedback\<close>, \<^verbatim>\<open>llm_failure\<close>, \<^verbatim>\<open>chromadb_failure\<close>), its
  arguments are the fields in the order of the source. The two readings of the wall
  clock, \<^verbatim>\<open>timestamp\<close> and \<^verbatim>\<open>response_time_ms\<close>, are not part of the model.
\<close>

datatype event =
    Query string string nat "string option"
      \<comment> \<open>\<^verbatim>\<open>user_message\<close>, \<^verbatim>\<open>response_type\<close>, \<^verbatim>\<open>jokes_count\<close>, \<^verbatim>\<open>error\<close>\<close>
  | Feedback json json json
      \<comment> \<open>\<^verbatim>\<open>query_id\<close>, \<^verbatim>\<open>rating\<close>, \<^verbatim>\<open>comment\<close>\<close>
  | LlmFailure string string string
      \<comment> \<open>\<^verbatim>\<open>error_type\<close>, \<^verbatim>\<open>error_message\<close>, \<^verbatim>\<open>fallback_used\<close>\<close>
  | ChromadbFailure string
      \<comment> \<open>\<^verbatim>\<open>error_message\<close>\<close>

text \<open>
  A call of an external service: a query of the ChromaDB collection (query text and
  \<^verbatim>\<open>n_results\<close>) or a chat completion (the prompt).
\<close>

datatype ext_call = Search string nat | Chat string

text \<open>
  What a request can change: the content of \<^verbatim>\<open>analytics.json\<close> (\<open>None\<close> when the
  file cannot be read as JSON), and the external calls made so far, kept as a trace so
  that "no call was made" can be stated. Writing the file is taken to succeed.
\<close>

record world =
  log_file :: "event list option"
  calls :: "ext_call list"

text \<open>The \<^verbatim>\<open>try\<close>/\<^verbatim>\<open>except\<close> of \<^verbatim>\<open>log_interaction\<close> (lines 21 to 25).\<close>

definition read_logs :: "event list option \<Rightarrow> event list" where
  "read_logs f = (case f of None \<Rightarrow> [] | Some logs \<Rightarrow> logs)"

definition log_interaction :: "event \<Rightarrow> world \<Rightarrow> world" where
  "log_interaction ev w = w\<lparr>log_file := Some (read_logs (log_file w) @ [ev])\<rparr>"

definition log_query :: "string \<Rightarrow> string \<Rightarrow> nat \<Rightarrow> string option \<Rightarrow> world \<Rightarrow> world" where
  "log_query user_message response_type jokes_returned err w =
     log_interaction (Query user_message response_type jokes_returned err) w"

definition log_feedback :: "json \<Rightarrow> json \<Rightarrow> json \<Rightarrow> world \<Rightarrow> world" where
  "log_feedback query_id rating comment w = log_interaction (Feedback query_id rating comment) w"

definition log_llm_failure :: "string \<Rightarrow> string \<Rightarrow> string \<Rightarrow> world \<Rightarrow> world" where
  "log_llm_failure error_type error_message fallback_used w =
     log_interaction (LlmFailure error_type error_message fallback_used) w"

definition log_chromadb_failure :: "string \<Rightarrow> world \<Rightarrow> world" where
  "log_chromadb_failure error_message w = log_interaction (ChromadbFailure error_message) w"

section \<open>The environment of a request\<close>

text \<open>
  \<^item> \<open>jokes_json\<close>: the content of \<^verbatim>\<open>jokes.json\<close>, \<open>None\<close> when the file is missing;
  \<^item> \<open>collection_query\<close>: the ChromaDB collection, from the query text and
    \<^verbatim>\<open>n_results\<close> to the list \<^verbatim>\<open>results['documents'][0]\<close>, or the exception raised;
  \<^item> \<open>chat_create\<close>: the chat completion service, from the prompt to the
    \<^verbatim>\<open>message.content\<close> of each of \<^verbatim>\<open>response.choices\<close>, or the exception raised
    (a timeout is one);
  \<^item> \<open>random_draw\<close>: the random number behind \<^verbatim>\<open>random.choice\<close>; the index chosen is
    this number modulo the length of the list, so that every index can be chosen.
\<close>

record env =
  jokes_json :: "joke list option"
  collection_query :: "string \<Rightarrow> nat \<Rightarrow> exn + string list"
  chat_create :: "string \<Rightarrow> exn + string option list"
  random_draw :: nat

text \<open>\<^verbatim>\<open>load_jokes\<close> (lines 25 to 31).\<close>

definition load_jokes :: "env \<Rightarrow> joke list" where
  "load_jokes env = (case jokes_json env of None \<Rightarrow> [] | Some jokes \<Rightarrow> jokes)"

text \<open>\<^verbatim>\<open>search_jokes_by_query\<close> (lines 70 to 77), with the call recorded.\<close>

definition search_jokes_by_query ::
  "env \<Rightarrow> string \<Rightarrow> nat \<Rightarrow> world \<Rightarrow> (exn + string list) \<times> world" where
  "search_jokes_by_query env query n_results w =
     (collection_query env query n_results, w\<lparr>calls := calls w @ [Search query n_results]\<rparr>)"

text \<open>\<^verbatim>\<open>chat_client.chat.completions.create\<close> with one user message, with the call recorded.\<close>

definition chat_completion ::
  "env \<Rightarrow> string \<Rightarrow> world \<Rightarrow> (exn + string option list) \<times> world" where
  "chat_completion env prompt w =
     (chat_create env prompt, w\<lparr>calls := calls w @ [Chat prompt]\<rparr>)"

text \<open>
  The check of the model's answer (lines 150 to 151 and 264 to 265): no choice, or a
  first choice whose content is \<^verbatim>\<open>None\<close> or empty, raises \<^verbatim>\<open>ValueError\<close>.
\<close>

definition response_content :: "string option list \<Rightarrow> exn + string" where
  "response_content choices =
     (case choices of
        [] \<Rightarrow> Inl (Exception ''ValueError'' ''Empty response from AI model'')
      | c # _ \<Rightarrow>
          (case c of
             None \<Rightarrow> Inl (Exception ''ValueError'' ''Empty response from AI model'')
           | Some content \<Rightarrow>
               if content = [] then Inl (Exception ''ValueError'' ''Empty response from AI model'')
               else Inr content))"

text \<open>\<^verbatim>\<open>random.choice(seq)\<close> on a non-empty list.\<close>

definition random_choice :: "env \<Rightarrow> 'a list \<Rightarrow> 'a" where
  "random_choice env seq = seq ! (random_draw env mod length seq)"

section \<open>The ask endpoint\<close>

text \<open>The answers of the endpoints: a JSON body and, for an error, the status code.\<close>

datatype http =
    Reply string "joke list"   \<comment> \<open>\<^verbatim>\<open>{'response': ..., 'jokes': ...}\<close>, status 200\<close>
  | ErrorReply string nat      \<comment> \<open>\<^verbatim>\<open>{'error': ...}\<close> with its status\<close>
  | Success string             \<comment> \<open>\<^verbatim>\<open>{'success': True, 'message': ...}\<close>, status 200\<close>

definition nl :: string where
  "nl = [char_of (10 :: nat)]"

definition dq :: string where
  "dq = [char_of (34 :: nat)]"

subsection \<open>The safety filter and the choice of the branch\<close>

definition nsfw_keywords :: "string list" where
  "nsfw_keywords = [''nsfw'', ''inappropriate'', ''explicit'', ''adult'', ''dirty'', ''sexual'']"

text \<open>Line 114.\<close>

definition nsfw_match :: "string \<Rightarrow> bool" where
  "nsfw_match user_message = list_ex (\<lambda>keyword. py_in keyword (lower user_message)) nsfw_keywords"

text \<open>Line 130.\<close>

definition is_counting :: "string \<Rightarrow> bool" where
  "is_counting user_message =
     (py_in ''how many'' (lower user_message) \<or> py_in ''count'' (lower user_message))"

text \<open>Line 192.\<close>

definition is_existence :: "string \<Rightarrow> bool" where
  "is_existence user_message =
     (endswith (strip user_message) ''?'' \<and>
      list_ex (\<lambda>word. py_in word (lower user_message))
        [''are there'', ''do you have'', ''is there'', ''any''])"

subsection \<open>The counting branch (lines 130 to 189)\<close>

definition prompt_count :: "string \<Rightarrow> string" where
  "prompt_count user_message =
     ''Analyze this question: '' @ dq @ user_message @ dq @ nl @
     nl @
     ''The user is asking about the count of jokes in a specific category or topic.'' @ nl @
     ''Based on the question, what category or topic are they asking about?'' @ nl @
     ''Return ONLY the category/topic name (e.g., '' @ dq @ ''physics'' @ dq @ '', '' @
       dq @ ''programming'' @ dq @ '', '' @ dq @ ''christmas'' @ dq @ '', '' @
       dq @ ''misc'' @ dq @ '').'' @ nl @
     ''If unclear, return '' @ dq @ ''unknown'' @ dq @ ''.''"

text \<open>The \<^verbatim>\<open>except\<close> branch, lines 155 to 160.\<close>

definition fallback_topic :: "string \<Rightarrow> string" where
  "fallback_topic user_message =
     (case re_search_how_many (lower user_message) of
        Some t \<Rightarrow> t
      | None \<Rightarrow> ''unknown'')"

text \<open>The \<^verbatim>\<open>try\<close> of lines 131 to 160: the topic, from the model or from the fallback.\<close>

definition extract_topic :: "env \<Rightarrow> string \<Rightarrow> joke list \<Rightarrow> world \<Rightarrow> string \<times> world" where
  "extract_topic env user_message all_jokes w =
     (case search_jokes_by_query env user_message (length all_jokes) w of
        (Inl llm_error, w1) \<Rightarrow> (fallback_topic user_message, w1)
      | (Inr search_results, w1) \<Rightarrow>
          (case chat_completion env (prompt_count user_message) w1 of
             (Inl llm_error, w2) \<Rightarrow> (fallback_topic user_message, w2)
           | (Inr choices, w2) \<Rightarrow>
               (case response_content choices of
                  Inl llm_error \<Rightarrow> (fallback_topic user_message, w2)
                | Inr content \<Rightarrow> (lower (strip content), w2))))"

text \<open>The loop of lines 166 to 172, on the pair of \<^verbatim>\<open>count\<close> and \<^verbatim>\<open>matching_jokes\<close>.\<close>

fun count_matching :: "string \<Rightarrow> joke list \<Rightarrow> nat \<times> joke list \<Rightarrow> nat \<times> joke list" where
  "count_matching topic [] acc = acc"
| "count_matching topic (joke # rest) (count, matching_jokes) =
     (let joke_category = lower (get_str (j_category joke) '''');
          joke_text = lower (format_joke joke)
      in if py_in topic joke_category \<or> py_in topic joke_text
         then count_matching topic rest (count + 1, matching_jokes @ [joke])
         else count_matching topic rest (count, matching_jokes))"

text \<open>Lines 174 to 189.\<close>

definition count_reply :: "string \<Rightarrow> string \<Rightarrow> joke list \<Rightarrow> world \<Rightarrow> http \<times> world" where
  "count_reply user_message topic all_jokes w =
     (case count_matching topic all_jokes (0, []) of
        (count, matching_jokes) \<Rightarrow>
          if count > 0
          then (Reply (''I have '' @ str_nat count @ '' '' @ topic @ '' joke'' @
                         (if count \<noteq> 1 then ''s'' else '''') @ '' in my collection.'')
                      (take 3 matching_jokes),
                log_query user_message ''success'' (length (take 3 matching_jokes)) None w)
          else (Reply (''I have 0 '' @ topic @ '' jokes in my collection.'') [],
                log_query user_message ''no_results'' 0 None w))"

definition counting :: "env \<Rightarrow> string \<Rightarrow> joke list \<Rightarrow> world \<Rightarrow> http \<times> world" where
  "counting env user_message all_jokes w =
     (case extract_topic env user_message all_jokes w of
        (topic, w1) \<Rightarrow> count_reply user_message topic all_jokes w1)"

subsection \<open>The existence branch (lines 192 to 221)\<close>

definition existence :: "env \<Rightarrow> string \<Rightarrow> joke list \<Rightarrow> world \<Rightarrow> http \<times> world" where
  "existence env user_message all_jokes w =
     (case search_jokes_by_query env user_message 10 w of
        (Inl search_error, w1) \<Rightarrow>
          (Reply ''I'm having trouble searching the joke collection. Please try again.'' [], w1)
      | (Inr documents, w1) \<Rightarrow>
          (let matching_jokes = reconcile_docs all_jokes (take 5 documents) [] in
           if documents \<noteq> [] \<and> matching_jokes \<noteq> []
           then (Reply (''Yes, I found '' @ str_nat (length matching_jokes) @ '' joke'' @
                          (if length matching_jokes \<noteq> 1 then ''s'' else '''') @
                          '' matching your query. Here are some examples:'')
                       (take 3 matching_jokes), w1)
           else (Reply ''No, I don't have any jokes matching that description in my collection.'' [],
                 w1)))"

subsection \<open>The recommendation branch (lines 224 to 340)\<close>

text \<open>Lines 237 to 252: the numbered documents and the prompt.\<close>

definition relevant_jokes_text :: "string list \<Rightarrow> string" where
  "relevant_jokes_text documents =
     join (nl @ nl)
       (map (\<lambda>(i, doc). ''Joke '' @ str_nat (i + 1) @ '': '' @ doc) (enumerate 0 documents))"

definition prompt_select :: "string \<Rightarrow> string list \<Rightarrow> string" where
  "prompt_select user_message documents =
     ''You are a helpful assistant that recommends jokes based on user requests.'' @ nl @
     nl @
     ''User request: '' @ user_message @ nl @
     nl @
     ''Here are some relevant jokes from the collection:'' @ nl @
     relevant_jokes_text documents @ nl @
     nl @
     ''Based on the user's request, select the joke number(s) that best match what they're asking for.'' @ nl @
     ''Return ONLY the joke number(s) separated by commas (e.g., '' @ dq @ ''1'' @ dq @
       '' or '' @ dq @ ''1,3,5'' @ dq @ '').'' @ nl @
     ''If none match well, return '' @ dq @ ''none'' @ dq @ ''.''"

text \<open>
  Line 279: the numbers of the answer, as indices from 0. The comprehension goes
  through the pieces from left to right; a piece that is not a digit string after
  stripping is left out; the first piece whose conversion raises ends the
  comprehension with that exception.
\<close>

fun indices_of :: "string list \<Rightarrow> exn + int list" where
  "indices_of [] = Inr []"
| "indices_of (num # nums) =
     (if isdigit (strip num)
      then (case py_int (strip num) of
              Inl e \<Rightarrow> Inl e
            | Inr n \<Rightarrow>
                (case indices_of nums of
                   Inl e \<Rightarrow> Inl e
                 | Inr idxs \<Rightarrow> Inr ((n - 1) # idxs)))
      else indices_of nums)"

definition joke_indices :: "string \<Rightarrow> exn + int list" where
  "joke_indices selected = indices_of (split_comma selected)"

text \<open>The loop of lines 284 to 291.\<close>

fun select_jokes :: "joke list \<Rightarrow> string list \<Rightarrow> int list \<Rightarrow> joke list \<Rightarrow> joke list" where
  "select_jokes all_jokes documents [] selected_jokes = selected_jokes"
| "select_jokes all_jokes documents (idx # rest) selected_jokes =
     select_jokes all_jokes documents rest
       (if 0 \<le> idx \<and> idx < int (length documents)
        then (case reconcile all_jokes (documents ! nat idx) of
                None \<Rightarrow> selected_jokes
              | Some joke \<Rightarrow> selected_jokes @ [joke])
        else selected_jokes)"

text \<open>Lines 294 to 300: with nothing selected, the first document is looked up.\<close>

definition first_result_fallback :: "joke list \<Rightarrow> string list \<Rightarrow> joke list \<Rightarrow> joke list" where
  "first_result_fallback all_jokes documents selected_jokes =
     (if selected_jokes = [] \<and> documents \<noteq> []
      then (case reconcile all_jokes (hd documents) of
              None \<Rightarrow> selected_jokes
            | Some joke \<Rightarrow> selected_jokes @ [joke])
      else selected_jokes)"

text \<open>
  The body of the \<^verbatim>\<open>try\<close>, lines 225 to 308: \<open>Inl\<close> is an exception that reaches the
  handler of line 310, \<open>Inr\<close> the answer returned. The exceptions are those of the query
  of the collection, of the chat completion, of the check of its answer and of the
  conversion of the numbers at line 279.
\<close>

definition recommend_try ::
  "env \<Rightarrow> string \<Rightarrow> joke list \<Rightarrow> world \<Rightarrow> (exn + http) \<times> world" where
  "recommend_try env user_message all_jokes w =
     (case search_jokes_by_query env user_message 5 w of
        (Inl llm_error, w1) \<Rightarrow> (Inl llm_error, w1)
      | (Inr documents, w1) \<Rightarrow>
          if documents = []
          then (Inr (Reply ''I couldn't find any jokes matching your request.'' []),
                log_query user_message ''no_results'' 0 None w1)
          else
            (case chat_completion env (prompt_select user_message documents) w1 of
               (Inl llm_error, w2) \<Rightarrow> (Inl llm_error, w2)
             | (Inr choices, w2) \<Rightarrow>
                 (case response_content choices of
                    Inl llm_error \<Rightarrow> (Inl llm_error, w2)
                  | Inr content \<Rightarrow>
                      (let selected = strip content in
                       if lower selected = ''none''
                       then (Inr (Reply ''I couldn't find a joke that matches your request perfectly. Would you like a random joke instead?'' []),
                             log_query user_message ''no_results'' 0 None w2)
                       else
                         (case joke_indices selected of
                            Inl llm_error \<Rightarrow> (Inl llm_error, w2)
                          | Inr idxs \<Rightarrow>
                              (let selected_jokes =
                                     first_result_fallback all_jokes documents
                                       (select_jokes all_jokes documents idxs [])
                               in (Inr (Reply ''Here's what I found for you:'' selected_jokes),
                                   log_query user_message ''success'' (length selected_jokes) None
                                     w2)))))))"

text \<open>
  The handler of lines 310 to 340: the failure is logged, the collection is queried
  again for 3 documents; when that raises too (line 332), a random joke is returned.
\<close>

definition llm_fallback ::
  "env \<Rightarrow> string \<Rightarrow> joke list \<Rightarrow> exn \<Rightarrow> world \<Rightarrow> http \<times> world" where
  "llm_fallback env user_message all_jokes llm_error w =
     (let w1 = log_llm_failure ''llm_selection_error'' (str_exn llm_error) ''chromadb_direct'' w in
      case search_jokes_by_query env user_message 3 w1 of
        (Inr documents, w2) \<Rightarrow>
          (let fallback_jokes = reconcile_docs all_jokes documents [] in
           (Reply ''Here's what I found for you:'' fallback_jokes,
            log_query user_message ''success'' (length fallback_jokes) None w2))
      | (Inl fallback_error, w2) \<Rightarrow>
          (Reply ''I'm having trouble processing your request. Here's a random joke instead:''
             (if all_jokes \<noteq> [] then [random_choice env all_jokes] else []),
           log_query user_message ''error'' 0 (Some (str_exn fallback_error)) w2))"

definition recommend :: "env \<Rightarrow> string \<Rightarrow> joke list \<Rightarrow> world \<Rightarrow> http \<times> world" where
  "recommend env user_message all_jokes w =
     (case recommend_try env user_message all_jokes w of
        (Inr answer, w1) \<Rightarrow> (answer, w1)
      | (Inl llm_error, w1) \<Rightarrow> llm_fallback env user_message all_jokes llm_error w1)"

subsection \<open>\<^verbatim>\<open>ask_ai\<close> (lines 101 to 344)\<close>

text \<open>
  Lines 111 to 340, for a message that is a string: the safety filter, the load of the
  corpus, then the first branch whose condition holds.
\<close>

definition ask_body :: "env \<Rightarrow> string \<Rightarrow> world \<Rightarrow> http \<times> world" where
  "ask_body env user_message w =
     (if nsfw_match user_message
      then (Reply ''I cannot provide NSFW or inappropriate content. All jokes in my collection are filtered to exclude such content.'' [],
            log_query user_message ''nsfw_blocked'' 0 None w)
      else
        (let all_jokes = load_jokes env in
         if all_jokes = [] then (ErrorReply ''No jokes available in the collection'' 500, w)
         else if is_counting user_message then counting env user_message all_jokes w
         else if is_existence user_message then existence env user_message all_jokes w
         else recommend env user_message all_jokes w))"

text \<open>
  The endpoint. A message that is missing or falsy is refused with status 400. A
  message that is not a string has no \<^verbatim>\<open>lower\<close> method: line 114 raises
  \<^verbatim>\<open>AttributeError\<close>, which the handler of line 342 turns into status 500.
\<close>

definition ask_ai :: "env \<Rightarrow> dict \<Rightarrow> world \<Rightarrow> http \<times> world" where
  "ask_ai env data w =
     (let user_message = dict_get data ''message'' (JStr '''') in
      if \<not> truthy user_message then (ErrorReply ''No message provided'' 400, w)
      else
        (case user_message of
           JStr s \<Rightarrow> ask_body env s w
         | _ \<Rightarrow> (ErrorReply ''An unexpected error occurred. Please try again.'' 500, w)))"

section \<open>The feedback endpoint\<close>

text \<open>\<^verbatim>\<open>submit_feedback\<close> (lines 346 to 359).\<close>

definition submit_feedback :: "dict \<Rightarrow> world \<Rightarrow> http \<times> world" where
  "submit_feedback data w =
     (let query_id = dict_get data ''query_id'' JNull;
          rating = dict_get data ''rating'' JNull;
          comment = dict_get data ''comment'' (JStr '''')
      in if \<not> truthy rating then (ErrorReply ''Rating is required'' 400, w)
         else (Success ''Thank you for your feedback!'', log_feedback query_id rating comment w))"


section \<open>Notions of the specification\<close>

text \<open>
  The specification speaks of a case-insensitive substring: \<open>t\<close> occurs in \<open>s\<close> when both
  are lowered.
\<close>

definition contains_ci :: "string \<Rightarrow> string \<Rightarrow> bool" where
  "contains_ci s t = sublist (lower t) (lower s)"

text \<open>
  The category of a record in the data model of the specification (section 3): the
  label of the record, "Unknown" when the record has none. A record matches a topic, in
  the words of section 4.3, when its category or its derived text contains the topic
  as a case-insensitive substring.
\<close>

definition spec_category :: "joke \<Rightarrow> string" where
  "spec_category joke = (case j_category joke of None \<Rightarrow> ''Unknown'' | Some c \<Rightarrow> c)"

definition topic_matches :: "string \<Rightarrow> joke \<Rightarrow> bool" where
  "topic_matches topic joke =
     (contains_ci (spec_category joke) topic \<or> contains_ci (format_joke joke) topic)"

text \<open>
  The same with no default for the category: a record without a category can match by
  its derived text only.
\<close>

definition topic_matches_present :: "string \<Rightarrow> joke \<Rightarrow> bool" where
  "topic_matches_present topic joke =
     ((case j_category joke of None \<Rightarrow> False | Some c \<Rightarrow> contains_ci c topic) \<or>
      contains_ci (format_joke joke) topic)"

text \<open>The events of type \<^verbatim>\<open>query\<close>, the QueryEvents of the specification.\<close>

fun is_query :: "event \<Rightarrow> bool" where
  "is_query (Query user_message response_type jokes_count err) = True"
| "is_query ev = False"

section \<open>Example data\<close>

text \<open>
  A small corpus and small environments, used where a statement is evaluated at a
  concrete request. Two of the jokes have the same text under different identifiers.
\<close>

definition joke_cat_a :: joke where
  "joke_cat_a =
     \<lparr>j_category = Some ''Pun'', j_type = Some ''single'', j_joke = Some ''A cat pun.'',
      j_setup = None, j_delivery = None, j_id = Some 1,
      j_str = ''{'category': 'Pun', 'type': 'single', 'joke': 'A cat pun.', 'id': 1}''\<rparr>"

definition joke_cat_b :: joke where
  "joke_cat_b =
     \<lparr>j_category = Some ''Misc'', j_type = Some ''single'', j_joke = Some ''A cat pun.'',
      j_setup = None, j_delivery = None, j_id = Some 2,
      j_str = ''{'category': 'Misc', 'type': 'single', 'joke': 'A cat pun.', 'id': 2}''\<rparr>"

definition joke_dog :: joke where
  "joke_dog =
     \<lparr>j_category = Some ''Animal'', j_type = Some ''twopart'', j_joke = None,
      j_setup = Some ''Why?'', j_delivery = Some ''Dog.'', j_id = Some 3,
      j_str = ''{'category': 'Animal', 'type': 'twopart', 'setup': 'Why?', 'delivery': 'Dog.', 'id': 3}''\<rparr>"

text \<open>A joke without a category.\<close>

definition joke_plain :: joke where
  "joke_plain =
     \<lparr>j_category = None, j_type = Some ''single'', j_joke = Some ''A plain one.'',
      j_setup = None, j_delivery = None, j_id = Some 4,
      j_str = ''{'type': 'single', 'joke': 'A plain one.', 'id': 4}''\<rparr>"

text \<open>A joke with a letter outside ASCII.\<close>

definition joke_cafe :: joke where
  "joke_cafe =
     \<lparr>j_category = Some ''Misc'', j_type = Some ''single'',
      j_joke = Some (''Un caf'' @ [char_of (233 :: nat)] @ '' noir.''),
      j_setup = None, j_delivery = None, j_id = Some 5,
      j_str = ''{'category': 'Misc', 'type': 'single', 'joke': 'Un caf'' @ [char_of (233 :: nat)] @
              '' noir.', 'id': 5}''\<rparr>"

definition timeout_error :: exn where
  "timeout_error = Exception ''APITimeoutError'' ''Request timed out.''"

definition search_error :: exn where
  "search_error = Exception ''RuntimeError'' ''collection unavailable''"

text \<open>
  The collection answers with the two texts of the corpus and a text that is not in
  the corpus; the model times out.
\<close>

definition env_llm_down :: env where
  "env_llm_down =
     \<lparr>jokes_json = Some [joke_cat_a, joke_dog],
      collection_query =
        (\<lambda>query n_results. Inr (take n_results [''A cat pun.'', ''Why? Dog.'', ''gone''])),
      chat_create = (\<lambda>prompt. Inl timeout_error),
      random_draw = 7\<rparr>"

text \<open>
  The collection answers as before; the model answers with the number 1 and the
  superscript two, a digit that \<^verbatim>\<open>int\<close> does not convert.
\<close>

definition env_llm_malformed :: env where
  "env_llm_malformed =
     \<lparr>jokes_json = Some [joke_cat_a, joke_dog],
      collection_query =
        (\<lambda>query n_results. Inr (take n_results [''A cat pun.'', ''Why? Dog.'', ''gone''])),
      chat_create = (\<lambda>prompt. Inr [Some (''1, '' @ [char_of (178 :: nat)])]),
      random_draw = 7\<rparr>"

text \<open>The corpus has a joke without a category; the model times out.\<close>

definition env_no_category :: env where
  "env_no_category =
     \<lparr>jokes_json = Some [joke_plain, joke_dog],
      collection_query = (\<lambda>query n_results. Inr (take n_results [''A plain one.'', ''Why? Dog.''])),
      chat_create = (\<lambda>prompt. Inl timeout_error),
      random_draw = 7\<rparr>"

text \<open>The model names the topic in capitals, with an accented letter and a space before it.\<close>

definition env_cafe :: env where
  "env_cafe =
     \<lparr>jokes_json = Some [joke_cafe],
      collection_query = (\<lambda>query n_results. Inr (take n_results [format_joke joke_cafe])),
      chat_create = (\<lambda>prompt. Inr [Some ('' CAF'' @ [char_of (201 :: nat)])]),
      random_draw = 0\<rparr>"

text \<open>Neither the collection nor the model answers.\<close>

definition env_all_down :: env where
  "env_all_down =
     \<lparr>jokes_json = Some [joke_cat_a, joke_dog],
      collection_query = (\<lambda>query n_results. Inl search_error),
      chat_create = (\<lambda>prompt. Inl timeout_error),
      random_draw = 7\<rparr>"

text \<open>The file \<^verbatim>\<open>jokes.json\<close> is missing.\<close>

definition env_no_jokes :: env where
  "env_no_jokes =
     \<lparr>jokes_json = None,
      collection_query = (\<lambda>query n_results. Inr []),
      chat_create = (\<lambda>prompt. Inr [Some ''none'']),
      random_draw = 0\<rparr>"

text \<open>An empty log and no call so far; the body of a request to the ask endpoint.\<close>

definition world0 :: world where
  "world0 = \<lparr>log_file = Some [], calls = []\<rparr>"

definition ask_request :: "string \<Rightarrow> dict" where
  "ask_request user_message = [''message'' \<mapsto> JStr user_message]"

definition msg_recommend :: string where
  "msg_recommend = ''Tell me a cat joke''"

definition msg_counting :: string where
  "msg_counting = ''How many cat jokes are there''"

definition msg_existence :: string where
  "msg_existence = ''Do you have any cat jokes?''"

definition msg_nsfw :: string where
  "msg_nsfw = ''Tell me a DIRTY joke''"

text \<open>A counting request without the words "how many"; a question followed by a no-break space.\<close>

definition msg_count_all :: string where
  "msg_count_all = ''Count the jokes''"

definition msg_existence_nbsp :: string where
  "msg_existence_nbsp = ''Got any jokes?'' @ [char_of (160 :: nat)]"

section \<open>Lowered strings\<close>

lemma char_lower_idem: "char_lower (char_lower c) = char_lower c"
  by (simp add: char_lower_def Let_def)

lemma lower_idem: "lower (lower s) = lower s"
  by (simp add: lower_def char_lower_idem)

lemma lower_fixed_iff: "lower s = s \<longleftrightarrow> (\<forall>c \<in> set s. char_lower c = c)"
  by (simp add: lower_def map_idI list_eq_iff_nth_eq all_set_conv_all_nth)

text \<open>The terms of the denylist are written in lower case.\<close>

lemma lower_nsfw_keywords: "kw \<in> set nsfw_keywords \<Longrightarrow> lower kw = kw"
  by (auto simp: nsfw_keywords_def lower_def char_lower_def)

lemma nsfw_match_iff:
  "nsfw_match user_message \<longleftrightarrow> (\<exists>kw \<in> set nsfw_keywords. contains_ci user_message kw)"
  by (auto simp: nsfw_match_def list_ex_iff py_in_def contains_ci_def lower_nsfw_keywords)

text \<open>The word that the regular expression captures is made of characters of the text.\<close>

lemma re_search_how_many_set: "re_search_how_many s = Some t \<Longrightarrow> set t \<subseteq> set s"
proof (induction s)
  case Nil
  then show ?case by simp
next
  case (Cons c cs)
  have "set (takeWhile is_word_char (drop 9 (c # cs))) \<subseteq> set (c # cs)"
    using set_takeWhileD set_drop_subset by fastforce
  with Cons show ?case by (auto split: if_splits)
qed

lemma fallback_topic_lower: "lower (fallback_topic user_message) = fallback_topic user_message"
proof (cases "re_search_how_many (lower user_message)")
  case None
  then show ?thesis by (simp add: fallback_topic_def lower_def char_lower_def)
next
  case (Some t)
  from re_search_how_many_set [OF Some] have "\<forall>c \<in> set t. char_lower c = c"
    by (auto simp: lower_def char_lower_idem)
  with Some show ?thesis by (simp add: fallback_topic_def lower_fixed_iff)
qed

section \<open>Reconciliation\<close>

lemma reconcile_find:
  "reconcile all_jokes doc = find (\<lambda>joke. format_joke joke = doc) all_jokes"
  by (induction all_jokes) auto

lemma reconcile_SomeD:
  "reconcile all_jokes doc = Some joke \<Longrightarrow> joke \<in> set all_jokes \<and> format_joke joke = doc"
  by (induction all_jokes) (auto split: if_splits)

lemma reconcile_None_iff:
  "reconcile all_jokes doc = None \<longleftrightarrow> doc \<notin> format_joke ` set all_jokes"
  by (induction all_jokes) auto

lemma reconcile_first:
  "reconcile all_jokes doc = Some joke \<Longrightarrow>
     \<exists>i < length all_jokes. all_jokes ! i = joke \<and> (\<forall>k < i. format_joke (all_jokes ! k) \<noteq> doc)"
  unfolding reconcile_find find_Some_iff by auto

text \<open>The loop over documents keeps, in order, the matches of the documents that have one.\<close>

lemma reconcile_docs_map_filter:
  "reconcile_docs all_jokes docs matching = matching @ List.map_filter (reconcile all_jokes) docs"
  by (induction docs arbitrary: matching) (auto simp: List.map_filter_simps split: option.splits)

lemma length_map_filter_le: "length (List.map_filter f xs) \<le> length xs"
  by (induction xs) (auto simp: List.map_filter_simps split: option.splits)

text \<open>
  C4, as amended. For a record of the corpus, the lookup of its derived text finds the
  first record of the corpus that has this derived text: a record with the same derived
  text, and no record before it has that text. It is the record itself when no two
  records of the corpus have the same derived text. The derived text is
  \<^const>\<open>format_joke\<close>: the joke field for the type single, setup and delivery joined
  by one space for the type twopart.
\<close>

theorem reconcile_first_match:
  assumes "joke \<in> set all_jokes"
  shows "\<exists>found i. reconcile all_jokes (format_joke joke) = Some found
           \<and> i < length all_jokes \<and> all_jokes ! i = found
           \<and> format_joke found = format_joke joke
           \<and> (\<forall>k < i. format_joke (all_jokes ! k) \<noteq> format_joke joke)
           \<and> (distinct (map format_joke all_jokes) \<longrightarrow> found = joke)"
proof -
  from assms have "format_joke joke \<in> format_joke ` set all_jokes" by blast
  then obtain found where f: "reconcile all_jokes (format_joke joke) = Some found"
    using reconcile_None_iff [of all_jokes "format_joke joke"]
    by (cases "reconcile all_jokes (format_joke joke)") auto
  from reconcile_first [OF f] obtain i where
    i: "i < length all_jokes" "all_jokes ! i = found"
       "\<forall>k < i. format_joke (all_jokes ! k) \<noteq> format_joke joke" by blast
  from reconcile_SomeD [OF f] have t: "found \<in> set all_jokes" "format_joke found = format_joke joke"
    by auto
  have "found = joke" if d: "distinct (map format_joke all_jokes)"
  proof -
    from d have "inj_on format_joke (set all_jokes)" by (simp add: distinct_map)
    with t assms show ?thesis by (auto dest: inj_onD)
  qed
  with f i t show ?thesis by blast
qed

text \<open>
  In the corpus of a single joke and a two-part joke, whose derived texts differ, the
  lookup of the second joke's text gives the second joke.
\<close>

theorem reconcile_first_match_witness:
  "joke_dog \<in> set [joke_cat_a, joke_dog] \<and> distinct (map format_joke [joke_cat_a, joke_dog]) \<and>
   format_joke joke_dog = ''Why? Dog.'' \<and>
   reconcile [joke_cat_a, joke_dog] (format_joke joke_dog) = Some joke_dog"
proof -
  have m: "joke_dog \<in> set [joke_cat_a, joke_dog]" by simp
  have d: "distinct (map format_joke [joke_cat_a, joke_dog])"
    by (simp add: joke_cat_a_def joke_dog_def format_joke_def get_str_def)
  have t: "format_joke joke_dog = ''Why? Dog.''"
    by (simp add: joke_dog_def format_joke_def get_str_def)
  from reconcile_first_match [OF m] d m t show ?thesis by auto
qed

text \<open>
  C4 as stated fails: two records with the same text and different identifiers are in
  the corpus, and the lookup of the second one's text gives the first one.
\<close>

theorem reconcile_round_trip_counterexample:
  "joke_cat_b \<in> set [joke_cat_a, joke_cat_b] \<and>
   reconcile [joke_cat_a, joke_cat_b] (format_joke joke_cat_b) = Some joke_cat_a \<and>
   joke_cat_a \<noteq> joke_cat_b"
  by (simp add: joke_cat_a_def joke_cat_b_def format_joke_def get_str_def)

section \<open>The endpoint on a message that is a string\<close>

lemma ask_ai_string:
  "data ''message'' = Some (JStr user_message) \<Longrightarrow> user_message \<noteq> [] \<Longrightarrow>
     ask_ai env data w = ask_body env user_message w"
  by (simp add: ask_ai_def dict_get_def)

lemma ask_request_message: "ask_request user_message ''message'' = Some (JStr user_message)"
  by (simp add: ask_request_def)

text \<open>The example messages and the branch each of them takes.\<close>

lemma msg_nsfw_class: "msg_nsfw \<noteq> [] \<and> contains_ci msg_nsfw ''dirty''"
  by code_simp

lemma msg_counting_class:
  "msg_counting \<noteq> [] \<and> \<not> nsfw_match msg_counting \<and> is_counting msg_counting"
  by code_simp

lemma msg_existence_class:
  "msg_existence \<noteq> [] \<and> \<not> nsfw_match msg_existence \<and> \<not> is_counting msg_existence \<and>
   is_existence msg_existence"
  by code_simp

lemma msg_recommend_class:
  "msg_recommend \<noteq> [] \<and> \<not> nsfw_match msg_recommend \<and> \<not> is_counting msg_recommend \<and>
   \<not> is_existence msg_recommend"
  by code_simp

lemma load_jokes_examples:
  "load_jokes env_llm_down = [joke_cat_a, joke_dog]"
  "load_jokes env_all_down = [joke_cat_a, joke_dog]"
  "load_jokes env_no_jokes = []"
  "load_jokes env_llm_malformed = [joke_cat_a, joke_dog]"
  "load_jokes env_no_category = [joke_plain, joke_dog]"
  by (simp_all add: load_jokes_def env_llm_down_def env_all_down_def env_no_jokes_def
      env_llm_malformed_def env_no_category_def)

section \<open>The safety filter\<close>

text \<open>
  C2. A message that is not empty and contains a term of the denylist as a
  case-insensitive substring is answered with the refusal text and no joke; the log
  gains exactly one event, a query event with the outcome \<^verbatim>\<open>nsfw_blocked\<close> and the count
  0; the trace of external calls is unchanged, so neither the collection nor the model
  was called.
\<close>

theorem nsfw_blocked:
  assumes "data ''message'' = Some (JStr user_message)" and "user_message \<noteq> []"
    and "kw \<in> set nsfw_keywords" and "contains_ci user_message kw"
  shows "ask_ai env data w =
           (Reply ''I cannot provide NSFW or inappropriate content. All jokes in my collection are filtered to exclude such content.'' [],
            w\<lparr>log_file := Some (read_logs (log_file w) @ [Query user_message ''nsfw_blocked'' 0 None])\<rparr>)
         \<and> calls (snd (ask_ai env data w)) = calls w"
proof -
  from assms(3,4) have "nsfw_match user_message" unfolding nsfw_match_iff by blast
  then show ?thesis
    using assms(1,2) by (simp add: ask_ai_string ask_body_def log_query_def log_interaction_def)
qed

theorem nsfw_blocked_witness:
  "ask_ai env_llm_down (ask_request msg_nsfw) world0 =
     (Reply ''I cannot provide NSFW or inappropriate content. All jokes in my collection are filtered to exclude such content.'' [],
      \<lparr>log_file = Some [Query msg_nsfw ''nsfw_blocked'' 0 None], calls = []\<rparr>)"
proof -
  have k: "''dirty'' \<in> set nsfw_keywords" by (simp add: nsfw_keywords_def)
  from nsfw_blocked [where data = "ask_request msg_nsfw" and user_message = msg_nsfw
      and kw = "''dirty''" and env = env_llm_down and w = world0]
    ask_request_message [of msg_nsfw] msg_nsfw_class k
  show ?thesis by (simp add: world0_def read_logs_def)
qed

section \<open>The load of the corpus\<close>

text \<open>No branch answers with the text of the random-joke fallback, except that fallback.\<close>

lemma counting_not_random:
  "counting env user_message all_jokes w \<noteq>
     (Reply ''I'm having trouble processing your request. Here's a random joke instead:'' js, w')"
  by (simp add: counting_def count_reply_def split: prod.splits)

lemma existence_not_random:
  "existence env user_message all_jokes w \<noteq>
     (Reply ''I'm having trouble processing your request. Here's a random joke instead:'' js, w')"
  by (simp add: existence_def Let_def split: prod.splits sum.splits)

lemma recommend_try_not_random:
  "recommend_try env user_message all_jokes w \<noteq>
     (Inr (Reply ''I'm having trouble processing your request. Here's a random joke instead:'' js), w')"
  by (simp add: recommend_try_def Let_def split: prod.splits sum.splits)

lemma llm_fallback_random:
  "llm_fallback env user_message all_jokes e w =
     (Reply ''I'm having trouble processing your request. Here's a random joke instead:'' js, w')
   \<Longrightarrow> js = (if all_jokes \<noteq> [] then [random_choice env all_jokes] else [])"
  by (auto simp: llm_fallback_def Let_def split: prod.splits sum.splits)

lemma recommend_random:
  assumes "recommend env user_message all_jokes w =
     (Reply ''I'm having trouble processing your request. Here's a random joke instead:'' js, w')"
  shows "js = (if all_jokes \<noteq> [] then [random_choice env all_jokes] else [])"
proof (cases "recommend_try env user_message all_jokes w")
  case (Pair r w1)
  show ?thesis
  proof (cases r)
    case (Inl e)
    with Pair assms show ?thesis
      by (simp add: recommend_def llm_fallback_random)
  next
    case (Inr a)
    with Pair assms recommend_try_not_random [of env user_message all_jokes w js w']
    show ?thesis by (simp add: recommend_def)
  qed
qed

text \<open>The answer of the endpoint in the two example environments without a collection.\<close>

lemma ask_all_down_recommend:
  "ask_ai env_all_down (ask_request msg_recommend) world0 =
     (Reply ''I'm having trouble processing your request. Here's a random joke instead:'' [joke_dog],
      \<lparr>log_file = Some [LlmFailure ''llm_selection_error'' ''collection unavailable'' ''chromadb_direct'',
                         Query msg_recommend ''error'' 0 (Some ''collection unavailable'')],
       calls = [Search msg_recommend 5, Search msg_recommend 3]\<rparr>)"
  by code_simp

text \<open>
  C10. For a message that is not empty and not on the denylist: when the load of the
  corpus gives the empty list, the endpoint answers with the error object and status
  500, and nothing else happened (no event in the log, no external call, so no
  classification was acted on). Hence no branch runs on an empty corpus: whenever the
  endpoint answers with the text of the random-joke fallback, the corpus is not empty
  and the answer carries exactly the one joke drawn from it, never the empty list.
\<close>

theorem empty_corpus_is_500:
  assumes "data ''message'' = Some (JStr user_message)" and "user_message \<noteq> []"
    and "\<not> nsfw_match user_message"
  shows "(load_jokes env = [] \<longrightarrow>
            ask_ai env data w = (ErrorReply ''No jokes available in the collection'' 500, w))
       \<and> (\<forall>js w'. ask_ai env data w =
                     (Reply ''I'm having trouble processing your request. Here's a random joke instead:'' js, w')
                   \<longrightarrow> load_jokes env \<noteq> [] \<and> js = [random_choice env (load_jokes env)])"
proof -
  have b: "ask_ai env data w = ask_body env user_message w"
    using assms(1,2) by (rule ask_ai_string)
  have 1: "load_jokes env = [] \<longrightarrow>
            ask_ai env data w = (ErrorReply ''No jokes available in the collection'' 500, w)"
    using assms(3) by (simp add: b ask_body_def)
  have 2: "load_jokes env \<noteq> [] \<and> js = [random_choice env (load_jokes env)]"
    if r: "ask_ai env data w =
      (Reply ''I'm having trouble processing your request. Here's a random joke instead:'' js, w')"
    for js w'
  proof -
    from r assms(3) have ne: "load_jokes env \<noteq> []"
      by (auto simp: b ask_body_def)
    from r assms(3) ne counting_not_random [of env user_message "load_jokes env" w js w']
      existence_not_random [of env user_message "load_jokes env" w js w']
    have "recommend env user_message (load_jokes env) w =
      (Reply ''I'm having trouble processing your request. Here's a random joke instead:'' js, w')"
      by (simp add: b ask_body_def Let_def split: if_splits)
    from recommend_random [OF this] ne show ?thesis by simp
  qed
  from 1 2 show ?thesis by blast
qed

text \<open>
  Without \<^verbatim>\<open>jokes.json\<close> the answer is the status 500 and the world is unchanged; with the
  corpus of two jokes and no collection, the random-joke answer carries one joke.
\<close>

theorem empty_corpus_is_500_witness:
  "ask_ai env_no_jokes (ask_request msg_recommend) world0 =
     (ErrorReply ''No jokes available in the collection'' 500, world0)
   \<and> load_jokes env_all_down \<noteq> []
   \<and> [joke_dog] = [random_choice env_all_down (load_jokes env_all_down)]"
proof -
  from empty_corpus_is_500 [where data = "ask_request msg_recommend" and user_message = msg_recommend
      and env = env_no_jokes and w = world0]
    ask_request_message [of msg_recommend] msg_recommend_class load_jokes_examples(3)
  have 1: "ask_ai env_no_jokes (ask_request msg_recommend) world0 =
     (ErrorReply ''No jokes available in the collection'' 500, world0)"
    by simp
  from empty_corpus_is_500 [where data = "ask_request msg_recommend" and user_message = msg_recommend
      and env = env_all_down and w = world0]
    ask_request_message [of msg_recommend] msg_recommend_class ask_all_down_recommend
  have 2: "load_jokes env_all_down \<noteq> [] \<and>
    [joke_dog] = [random_choice env_all_down (load_jokes env_all_down)]"
    by simp
  from 1 2 show ?thesis by simp
qed

section \<open>The counting branch\<close>

text \<open>The topic is in lower case, whether the model or the regular expression gave it.\<close>

lemma extract_topic_lower:
  "extract_topic env user_message all_jokes w = (topic, w1) \<Longrightarrow> lower topic = topic"
  by (auto simp: extract_topic_def search_jokes_by_query_def chat_completion_def
      fallback_topic_lower lower_idem split: sum.splits)

lemma extract_topic_log:
  "extract_topic env user_message all_jokes w = (topic, w1) \<Longrightarrow> log_file w1 = log_file w"
  by (auto simp: extract_topic_def search_jokes_by_query_def chat_completion_def split: sum.splits)

text \<open>The loop counts and collects the jokes that pass the test of line 170.\<close>

lemma count_matching_filter:
  "count_matching topic all_jokes (count, matching) =
     (count + length (filter (\<lambda>joke. py_in topic (lower (get_str (j_category joke) [])) \<or>
                                 py_in topic (lower (format_joke joke))) all_jokes),
      matching @ filter (\<lambda>joke. py_in topic (lower (get_str (j_category joke) [])) \<or>
                                 py_in topic (lower (format_joke joke))) all_jokes)"
  by (induction all_jokes arbitrary: count matching) (simp_all add: Let_def)

text \<open>
  The test of line 170 reads a missing category as the empty string, which contains
  the empty topic only; and the empty topic is in every derived text.
\<close>

lemma topic_matches_code:
  "lower topic = topic \<Longrightarrow>
     (py_in topic (lower (get_str (j_category joke) [])) \<or> py_in topic (lower (format_joke joke)))
       = topic_matches_present topic joke"
  by (cases "j_category joke")
    (auto simp: topic_matches_present_def contains_ci_def py_in_def get_str_def lower_def)

lemma str_nat_small: "str_nat (Suc 0) = ''1''" "str_nat (Suc (Suc 0)) = ''2''"
  by code_simp+

lemma extract_topic_example:
  "extract_topic env_llm_down msg_counting (load_jokes env_llm_down) world0 =
     (''cat'', \<lparr>log_file = Some [], calls = [Search msg_counting 2, Chat (prompt_count msg_counting)]\<rparr>)"
  by code_simp

lemma topic_matches_example:
  "filter (topic_matches_present ''cat'') (load_jokes env_llm_down) = [joke_cat_a]"
  by code_simp

text \<open>
  Letters outside ASCII are lowered as well: the model answers with the word "CAFE" in
  capitals, its last letter with an acute accent (U+00C9) and a space before the word;
  the topic is the word in small letters (the last one is U+00E9), and the joke, which
  has this word, is counted.
\<close>

lemma counting_latin1_example:
  "ask_ai env_cafe (ask_request msg_count_all) world0 =
     (Reply (''I have 1 caf'' @ [char_of (233 :: nat)] @ '' joke in my collection.'') [joke_cafe],
      \<lparr>log_file = Some [Query msg_count_all ''success'' 1 None],
       calls = [Search msg_count_all 1, Chat (prompt_count msg_count_all)]\<rparr>)"
  by code_simp

text \<open>
  C5, as amended. In the counting branch, with the topic that was extracted, the count
  that is reported is the number of records of the corpus whose category, when the
  record has one, or whose derived text contains the topic as a case-insensitive
  substring; a record without a category is not read as "Unknown" here. When the count
  is positive, the answer states the count, the topic and "joke" or "jokes" as the
  count is 1 or not, carries the first 3 matching records at most, and one query event
  with the outcome \<^verbatim>\<open>success\<close> and the number of records carried is logged. When it is
  zero, the answer is "I have 0 <topic> jokes in my collection." with no joke, and one
  query event with the outcome \<^verbatim>\<open>no_results\<close> and the count 0 is logged.
\<close>

theorem counting_reports_matches:
  assumes "data ''message'' = Some (JStr user_message)" and "user_message \<noteq> []"
    and "\<not> nsfw_match user_message" and "load_jokes env \<noteq> []"
    and "is_counting user_message"
    and "extract_topic env user_message (load_jokes env) w = (topic, w1)"
    and "matching = filter (topic_matches_present topic) (load_jokes env)"
  shows "ask_ai env data w =
     (if length matching > 0
      then (Reply (''I have '' @ str_nat (length matching) @ '' '' @ topic @
                     (if length matching = 1 then '' joke'' else '' jokes'') @ '' in my collection.'')
                  (take 3 matching),
            w1\<lparr>log_file := Some (read_logs (log_file w) @
                  [Query user_message ''success'' (min 3 (length matching)) None])\<rparr>)
      else (Reply (''I have 0 '' @ topic @ '' jokes in my collection.'') [],
            w1\<lparr>log_file := Some (read_logs (log_file w) @
                  [Query user_message ''no_results'' 0 None])\<rparr>))"
proof -
  have l: "lower topic = topic" using assms(6) by (rule extract_topic_lower)
  have f: "filter (\<lambda>joke. py_in topic (lower (get_str (j_category joke) [])) \<or>
                          py_in topic (lower (format_joke joke))) (load_jokes env) = matching"
    unfolding assms(7) by (rule filter_cong) (simp_all add: topic_matches_code [OF l])
  have "ask_ai env data w = counting env user_message (load_jokes env) w"
    using assms(1-5) by (simp add: ask_ai_string ask_body_def Let_def)
  also have "\<dots> = count_reply user_message topic (load_jokes env) w1"
    using assms(6) by (simp add: counting_def)
  finally show ?thesis
    using extract_topic_log [OF assms(6)]
    by (simp add: count_reply_def count_matching_filter f log_query_def log_interaction_def)
qed

text \<open>
  The model is down, the regular expression finds the topic "cat", one joke of the two
  matches.
\<close>

theorem counting_reports_matches_witness:
  "ask_ai env_llm_down (ask_request msg_counting) world0 =
     (Reply ''I have 1 cat joke in my collection.'' [joke_cat_a],
      \<lparr>log_file = Some [Query msg_counting ''success'' 1 None],
       calls = [Search msg_counting 2, Chat (prompt_count msg_counting)]\<rparr>)"
proof -
  have j: "load_jokes env_llm_down \<noteq> []" by (simp add: load_jokes_examples)
  from counting_reports_matches [where data = "ask_request msg_counting"
      and user_message = msg_counting and env = env_llm_down and w = world0
      and topic = "''cat''" and matching = "[joke_cat_a]",
      OF ask_request_message _ _ j _ extract_topic_example topic_matches_example [symmetric]]
    msg_counting_class
  show ?thesis by (simp add: world0_def read_logs_def str_nat_small)
qed

text \<open>
  C5 as stated fails: the corpus has a joke without a category, whose category is
  "Unknown" in the data model of the specification; the model times out and the
  message has no "how many", so the topic is "unknown"; one record matches it by its
  category, and the answer reports 0 jokes.
\<close>

theorem counting_missing_category_counterexample:
  "is_counting msg_count_all \<and>
   fst (extract_topic env_no_category msg_count_all (load_jokes env_no_category) world0) = ''unknown'' \<and>
   joke_plain \<in> set (load_jokes env_no_category) \<and> j_category joke_plain = None \<and>
   filter (topic_matches ''unknown'') (load_jokes env_no_category) = [joke_plain] \<and>
   ask_ai env_no_category (ask_request msg_count_all) world0 =
     (Reply ''I have 0 unknown jokes in my collection.'' [],
      \<lparr>log_file = Some [Query msg_count_all ''no_results'' 0 None],
       calls = [Search msg_count_all 2, Chat (prompt_count msg_count_all)]\<rparr>)"
  by code_simp

section \<open>The existence branch\<close>

text \<open>
  A question mark followed by a no-break space still ends the stripped message: the
  request is an existence question.
\<close>

lemma msg_existence_nbsp_class:
  "\<not> nsfw_match msg_existence_nbsp \<and> \<not> is_counting msg_existence_nbsp \<and>
   is_existence msg_existence_nbsp"
  by code_simp

lemma ask_existence_nbsp_example:
  "ask_ai env_llm_down (ask_request msg_existence_nbsp) world0 =
     (Reply ''Yes, I found 2 jokes matching your query. Here are some examples:'' [joke_cat_a, joke_dog],
      \<lparr>log_file = Some [], calls = [Search msg_existence_nbsp 10]\<rparr>)"
  by code_simp

lemma existence_raises:
  "collection_query env user_message 10 = Inl e \<Longrightarrow>
     existence env user_message all_jokes w =
       (Reply ''I'm having trouble searching the joke collection. Please try again.'' [],
        w\<lparr>calls := calls w @ [Search user_message 10]\<rparr>)"
  by (simp add: existence_def search_jokes_by_query_def)

text \<open>
  C6. In the existence branch, when the collection answers: the first 5 documents are
  looked up in the corpus by their exact text, in order, and the documents without a
  match are skipped, so that at most 5 records are found. With at least one record, the
  answer is "Yes, I found N joke(s) matching your query. Here are some examples:" where
  N is the number of records found, "joke" for 1 and "jokes" otherwise, with the first
  3 records at most. With none, the answer is the fixed "No, ..." text and no joke.
\<close>

theorem existence_reconciles_first_five:
  assumes "data ''message'' = Some (JStr user_message)" and "user_message \<noteq> []"
    and "\<not> nsfw_match user_message" and "load_jokes env \<noteq> []"
    and "\<not> is_counting user_message" and "is_existence user_message"
    and "collection_query env user_message 10 = Inr documents"
    and "found = List.map_filter (reconcile (load_jokes env)) (take 5 documents)"
  shows "ask_ai env data w =
     (if found \<noteq> []
      then Reply (''Yes, I found '' @ str_nat (length found) @
                    (if length found = 1 then '' joke'' else '' jokes'') @
                    '' matching your query. Here are some examples:'')
                 (take 3 found)
      else Reply ''No, I don't have any jokes matching that description in my collection.'' [],
      w\<lparr>calls := calls w @ [Search user_message 10]\<rparr>)
     \<and> length found \<le> 5"
proof -
  have "ask_ai env data w = existence env user_message (load_jokes env) w"
    using assms(1-6) by (simp add: ask_ai_string ask_body_def Let_def)
  moreover have "length found \<le> 5"
    unfolding assms(8) using length_map_filter_le [of "reconcile (load_jokes env)" "take 5 documents"]
    by simp
  moreover have "documents = [] \<Longrightarrow> found = []"
    unfolding assms(8) by (simp add: List.map_filter_simps)
  ultimately show ?thesis
    using assms(7)
    by (auto simp: existence_def search_jokes_by_query_def Let_def reconcile_docs_map_filter assms(8))
qed

lemma existence_found_example:
  "List.map_filter (reconcile (load_jokes env_llm_down)) (take 5 [''A cat pun.'', ''Why? Dog.'', ''gone''])
     = [joke_cat_a, joke_dog]"
  by code_simp

text \<open>Of the three documents two are texts of the corpus; the third one is skipped.\<close>

theorem existence_reconciles_first_five_witness:
  "ask_ai env_llm_down (ask_request msg_existence) world0 =
     (Reply ''Yes, I found 2 jokes matching your query. Here are some examples:'' [joke_cat_a, joke_dog],
      \<lparr>log_file = Some [], calls = [Search msg_existence 10]\<rparr>)"
proof -
  have j: "load_jokes env_llm_down \<noteq> []" by (simp add: load_jokes_examples)
  have q: "collection_query env_llm_down msg_existence 10 = Inr [''A cat pun.'', ''Why? Dog.'', ''gone'']"
    by (simp add: env_llm_down_def)
  from existence_reconciles_first_five [where data = "ask_request msg_existence"
      and user_message = msg_existence and env = env_llm_down and w = world0
      and documents = "[''A cat pun.'', ''Why? Dog.'', ''gone'']" and found = "[joke_cat_a, joke_dog]",
      OF ask_request_message _ _ j _ _ q existence_found_example [symmetric]]
    msg_existence_class
  show ?thesis by (simp add: world0_def str_nat_small)
qed

text \<open>
  C7. In the existence branch, when the query of the collection raises, the answer is
  the fixed "I'm having trouble searching ..." text with no joke, and the log is what
  it was: no query event, and no other event, is written.
\<close>

theorem existence_search_failure:
  assumes "data ''message'' = Some (JStr user_message)" and "user_message \<noteq> []"
    and "\<not> nsfw_match user_message" and "load_jokes env \<noteq> []"
    and "\<not> is_counting user_message" and "is_existence user_message"
    and "collection_query env user_message 10 = Inl e"
  shows "ask_ai env data w =
           (Reply ''I'm having trouble searching the joke collection. Please try again.'' [],
            w\<lparr>calls := calls w @ [Search user_message 10]\<rparr>)
         \<and> log_file (snd (ask_ai env data w)) = log_file w"
  using assms by (simp add: ask_ai_string ask_body_def existence_raises)

theorem existence_search_failure_witness:
  "ask_ai env_all_down (ask_request msg_existence) world0 =
     (Reply ''I'm having trouble searching the joke collection. Please try again.'' [],
      \<lparr>log_file = Some [], calls = [Search msg_existence 10]\<rparr>)"
proof -
  have j: "load_jokes env_all_down \<noteq> []" by (simp add: load_jokes_examples)
  have q: "collection_query env_all_down msg_existence 10 = Inl search_error"
    by (simp add: env_all_down_def)
  from existence_search_failure [where data = "ask_request msg_existence"
      and user_message = msg_existence and env = env_all_down and e = search_error and w = world0,
      OF ask_request_message _ _ j _ _ q]
    msg_existence_class
  show ?thesis by (simp add: world0_def)
qed

section \<open>The recommendation branch\<close>

text \<open>
  The conversion of line 279 raises exactly on a string that is empty, has a character
  that is not a decimal digit, or is longer than the limit of the interpreter; the
  comprehension raises exactly when one of the pieces is, after stripping, a digit
  string with a digit that is not decimal or with more digits than the limit.
\<close>

lemma py_int_raises_iff:
  "isl (py_int s) \<longleftrightarrow> s = [] \<or> \<not> list_all is_decimal s \<or> length s > int_max_str_digits"
proof (cases "list_all is_decimal s")
  case True
  then have tw: "takeWhile is_decimal s = s" by (simp add: list_all_iff)
  from True show ?thesis by (simp add: py_int_def Let_def tw)
next
  case False
  then show ?thesis by (simp add: py_int_def Let_def)
qed

lemma indices_of_raises_iff:
  "isl (indices_of nums) \<longleftrightarrow>
     (\<exists>num \<in> set nums. isdigit (strip num) \<and>
        (\<not> list_all is_decimal (strip num) \<or> length (strip num) > int_max_str_digits))"
proof (induction nums)
  case Nil
  show ?case by simp
next
  case (Cons num nums)
  show ?case
  proof (cases "isdigit (strip num)")
    case False
    with Cons show ?thesis by simp
  next
    case True
    then have ne: "strip num \<noteq> []" by (simp add: isdigit_def)
    show ?thesis
    proof (cases "py_int (strip num)")
      case (Inl e)
      with py_int_raises_iff [of "strip num"] ne True show ?thesis by auto
    next
      case (Inr n)
      with py_int_raises_iff [of "strip num"] ne
      have ok: "list_all is_decimal (strip num)" "\<not> length (strip num) > int_max_str_digits"
        by auto
      with Cons True Inr show ?thesis by (auto split: sum.splits)
    qed
  qed
qed

text \<open>
  The answer of the model is 1, a comma, a space and the superscript two (U+00B2): the
  second piece is a digit string that is not decimal.
\<close>

lemma joke_indices_example:
  "joke_indices (''1, '' @ [char_of (178 :: nat)]) =
     Inl (Exception ''ValueError''
       (''invalid literal for int() with base 10: '' @ sq @ [char_of (178 :: nat)] @ sq))"
  "joke_indices ''1, 3,x, 02 ,'' = Inr [0, 2, 1]"
  by code_simp+

text \<open>Nothing is logged before an exception reaches the handler of line 310.\<close>

lemma recommend_try_raise_log:
  "recommend_try env user_message all_jokes w = (Inl e, w1) \<Longrightarrow> log_file w1 = log_file w"
  by (auto simp: recommend_try_def search_jokes_by_query_def chat_completion_def Let_def
      split: sum.splits if_splits)

text \<open>
  The body of the \<^verbatim>\<open>try\<close> raises exactly when the first query of the collection raises,
  or it gives documents and the model raises (an error, a timeout), or the model's
  answer has no choice or an empty content, or the answer is not "none" and the
  conversion of its numbers raises (a malformed answer).
\<close>

lemma recommend_try_raise_iff:
  "(\<exists>e w1. recommend_try env user_message all_jokes w = (Inl e, w1)) \<longleftrightarrow>
     (case collection_query env user_message 5 of
        Inl e \<Rightarrow> True
      | Inr documents \<Rightarrow> documents \<noteq> [] \<and>
          (case chat_create env (prompt_select user_message documents) of
             Inl e \<Rightarrow> True
           | Inr choices \<Rightarrow>
               (case response_content choices of
                  Inl e \<Rightarrow> True
                | Inr content \<Rightarrow>
                    lower (strip content) \<noteq> ''none'' \<and> isl (joke_indices (strip content)))))"
  by (auto simp: recommend_try_def search_jokes_by_query_def chat_completion_def Let_def
      split: sum.splits if_splits)

lemma response_content_raises_iff:
  "isl (response_content choices) \<longleftrightarrow> choices = [] \<or> hd choices = None \<or> hd choices = Some []"
  by (auto simp: response_content_def split: list.splits option.splits)

lemma llm_fallback_requery_ok:
  assumes "collection_query env user_message 3 = Inr documents"
  shows "llm_fallback env user_message all_jokes e w =
     (Reply ''Here's what I found for you:'' (List.map_filter (reconcile all_jokes) documents),
      w\<lparr>log_file := Some (read_logs (log_file w) @
            [LlmFailure ''llm_selection_error'' (str_exn e) ''chromadb_direct'',
             Query user_message ''success'' (length (List.map_filter (reconcile all_jokes) documents)) None]),
        calls := calls w @ [Search user_message 3]\<rparr>)"
  using assms
  by (simp add: llm_fallback_def Let_def search_jokes_by_query_def log_llm_failure_def
      log_query_def log_interaction_def reconcile_docs_map_filter read_logs_def)

lemma llm_fallback_requery_raises:
  assumes "collection_query env user_message 3 = Inl fallback_error"
  shows "llm_fallback env user_message all_jokes e w =
     (Reply ''I'm having trouble processing your request. Here's a random joke instead:''
        (if all_jokes = [] then [] else [all_jokes ! (random_draw env mod length all_jokes)]),
      w\<lparr>log_file := Some (read_logs (log_file w) @
            [LlmFailure ''llm_selection_error'' (str_exn e) ''chromadb_direct'',
             Query user_message ''error'' 0 (Some (str_exn fallback_error))]),
        calls := calls w @ [Search user_message 3]\<rparr>)"
  using assms
  by (simp add: llm_fallback_def Let_def search_jokes_by_query_def log_llm_failure_def
      log_query_def log_interaction_def read_logs_def random_choice_def)

lemma recommend_try_example:
  "recommend_try env_llm_down msg_recommend (load_jokes env_llm_down) world0 =
     (Inl timeout_error,
      \<lparr>log_file = Some [],
       calls = [Search msg_recommend 5,
                Chat (prompt_select msg_recommend [''A cat pun.'', ''Why? Dog.'', ''gone''])]\<rparr>)"
  by code_simp

lemma recommend_try_example_down:
  "recommend_try env_all_down msg_recommend (load_jokes env_all_down) world0 =
     (Inl search_error, \<lparr>log_file = Some [], calls = [Search msg_recommend 5]\<rparr>)"
  by code_simp

lemma recommend_try_example_malformed:
  "recommend_try env_llm_malformed msg_recommend (load_jokes env_llm_malformed) world0 =
     (Inl (Exception ''ValueError''
        (''invalid literal for int() with base 10: '' @ sq @ [char_of (178 :: nat)] @ sq)),
      \<lparr>log_file = Some [],
       calls = [Search msg_recommend 5,
                Chat (prompt_select msg_recommend [''A cat pun.'', ''Why? Dog.'', ''gone''])]\<rparr>)"
  by code_simp

text \<open>
  C1. In the recommendation branch, when the steps of the selection raise (the body of
  the \<^verbatim>\<open>try\<close> ends in an exception: an error or a timeout of a call, an empty answer, or
  an answer whose numbers cannot be converted) and the second query of the collection,
  for 3 documents, answers: the log gains exactly two events, one \<^verbatim>\<open>llm_failure\<close> event whose
  \<^verbatim>\<open>fallback_used\<close> is the string \<^verbatim>\<open>chromadb_direct\<close>, then one query event with the outcome
  \<^verbatim>\<open>success\<close> and the number of records found as its count; the second query is the call
  after those of the \<^verbatim>\<open>try\<close>; each document is looked up by its exact text and the
  records found are returned in order with the text "Here's what I found for you:".
  No case is made of an empty result: the outcome is \<^verbatim>\<open>success\<close> with the count 0 then.
\<close>

theorem llm_failure_uses_chromadb_direct:
  assumes "data ''message'' = Some (JStr user_message)" and "user_message \<noteq> []"
    and "\<not> nsfw_match user_message" and "load_jokes env \<noteq> []"
    and "\<not> is_counting user_message" and "\<not> is_existence user_message"
    and "recommend_try env user_message (load_jokes env) w = (Inl llm_error, w1)"
    and "collection_query env user_message 3 = Inr documents"
  shows "ask_ai env data w =
     (Reply ''Here's what I found for you:'' (List.map_filter (reconcile (load_jokes env)) documents),
      w1\<lparr>log_file := Some (read_logs (log_file w) @
            [LlmFailure ''llm_selection_error'' (str_exn llm_error) ''chromadb_direct'',
             Query user_message ''success''
               (length (List.map_filter (reconcile (load_jokes env)) documents)) None]),
         calls := calls w1 @ [Search user_message 3]\<rparr>)"
proof -
  have "ask_ai env data w = recommend env user_message (load_jokes env) w"
    using assms(1-6) by (simp add: ask_ai_string ask_body_def Let_def)
  also have "\<dots> = llm_fallback env user_message (load_jokes env) llm_error w1"
    using assms(7) by (simp add: recommend_def)
  finally show ?thesis
    using llm_fallback_requery_ok [OF assms(8)] recommend_try_raise_log [OF assms(7)] by simp
qed

text \<open>
  The model times out, or it answers with a number that cannot be converted; of the
  three documents of the second query two are texts of the corpus.
\<close>

theorem llm_failure_uses_chromadb_direct_witness:
  "ask_ai env_llm_down (ask_request msg_recommend) world0 =
     (Reply ''Here's what I found for you:'' [joke_cat_a, joke_dog],
      \<lparr>log_file = Some [LlmFailure ''llm_selection_error'' ''Request timed out.'' ''chromadb_direct'',
                         Query msg_recommend ''success'' 2 None],
       calls = [Search msg_recommend 5,
                Chat (prompt_select msg_recommend [''A cat pun.'', ''Why? Dog.'', ''gone'']),
                Search msg_recommend 3]\<rparr>)
   \<and> ask_ai env_llm_malformed (ask_request msg_recommend) world0 =
     (Reply ''Here's what I found for you:'' [joke_cat_a, joke_dog],
      \<lparr>log_file = Some [LlmFailure ''llm_selection_error''
                           (''invalid literal for int() with base 10: '' @ sq @ [char_of (178 :: nat)] @ sq)
                           ''chromadb_direct'',
                         Query msg_recommend ''success'' 2 None],
       calls = [Search msg_recommend 5,
                Chat (prompt_select msg_recommend [''A cat pun.'', ''Why? Dog.'', ''gone'']),
                Search msg_recommend 3]\<rparr>)"
proof -
  have j: "load_jokes env_llm_down \<noteq> []" "load_jokes env_llm_malformed \<noteq> []"
    by (simp_all add: load_jokes_examples)
  have q: "collection_query env_llm_down msg_recommend 3 = Inr [''A cat pun.'', ''Why? Dog.'', ''gone'']"
    "collection_query env_llm_malformed msg_recommend 3 = Inr [''A cat pun.'', ''Why? Dog.'', ''gone'']"
    by (simp_all add: env_llm_down_def env_llm_malformed_def)
  have f: "List.map_filter (reconcile (load_jokes env_llm_down)) [''A cat pun.'', ''Why? Dog.'', ''gone'']
             = [joke_cat_a, joke_dog]"
    "List.map_filter (reconcile (load_jokes env_llm_malformed)) [''A cat pun.'', ''Why? Dog.'', ''gone'']
             = [joke_cat_a, joke_dog]"
    by code_simp+
  from llm_failure_uses_chromadb_direct [where data = "ask_request msg_recommend"
      and user_message = msg_recommend and env = env_llm_down and w = world0,
      OF ask_request_message _ _ j(1) _ _ recommend_try_example q(1), unfolded f]
    msg_recommend_class
  have 1: "ask_ai env_llm_down (ask_request msg_recommend) world0 =
     (Reply ''Here's what I found for you:'' [joke_cat_a, joke_dog],
      \<lparr>log_file = Some [LlmFailure ''llm_selection_error'' ''Request timed out.'' ''chromadb_direct'',
                         Query msg_recommend ''success'' 2 None],
       calls = [Search msg_recommend 5,
                Chat (prompt_select msg_recommend [''A cat pun.'', ''Why? Dog.'', ''gone'']),
                Search msg_recommend 3]\<rparr>)"
    by (simp add: world0_def read_logs_def timeout_error_def)
  from llm_failure_uses_chromadb_direct [where data = "ask_request msg_recommend"
      and user_message = msg_recommend and env = env_llm_malformed and w = world0,
      OF ask_request_message _ _ j(2) _ _ recommend_try_example_malformed q(2), unfolded f]
    msg_recommend_class
  have 2: "ask_ai env_llm_malformed (ask_request msg_recommend) world0 =
     (Reply ''Here's what I found for you:'' [joke_cat_a, joke_dog],
      \<lparr>log_file = Some [LlmFailure ''llm_selection_error''
                           (''invalid literal for int() with base 10: '' @ sq @ [char_of (178 :: nat)] @ sq)
                           ''chromadb_direct'',
                         Query msg_recommend ''success'' 2 None],
       calls = [Search msg_recommend 5,
                Chat (prompt_select msg_recommend [''A cat pun.'', ''Why? Dog.'', ''gone'']),
                Search msg_recommend 3]\<rparr>)"
    by (simp add: world0_def read_logs_def)
  from 1 2 show ?thesis by (rule conjI)
qed

text \<open>
  C8. In the recommendation branch, when the steps of the selection raise and the
  second query of the collection raises too: after the \<^verbatim>\<open>llm_failure\<close> event, one query
  event with the outcome \<^verbatim>\<open>error\<close>, the count 0 and the text of the second exception is
  logged, and the answer is the fixed "I'm having trouble processing your request.
  Here's a random joke instead:" with exactly one record, which is a record of the
  corpus (the one at the index drawn), or with the empty list when the corpus is empty.
  That the draw is uniform is a property of \<^verbatim>\<open>random.choice\<close>, not of this code.
\<close>

theorem random_joke_when_requery_raises:
  assumes "recommend_try env user_message all_jokes w = (Inl llm_error, w1)"
    and "collection_query env user_message 3 = Inl fallback_error"
  shows "recommend env user_message all_jokes w =
     (Reply ''I'm having trouble processing your request. Here's a random joke instead:''
        (if all_jokes = [] then [] else [all_jokes ! (random_draw env mod length all_jokes)]),
      w1\<lparr>log_file := Some (read_logs (log_file w) @
            [LlmFailure ''llm_selection_error'' (str_exn llm_error) ''chromadb_direct'',
             Query user_message ''error'' 0 (Some (str_exn fallback_error))]),
         calls := calls w1 @ [Search user_message 3]\<rparr>)
     \<and> (all_jokes = [] \<or> all_jokes ! (random_draw env mod length all_jokes) \<in> set all_jokes)"
proof -
  have "recommend env user_message all_jokes w = llm_fallback env user_message all_jokes llm_error w1"
    using assms(1) by (simp add: recommend_def)
  then have eq: "recommend env user_message all_jokes w =
     (Reply ''I'm having trouble processing your request. Here's a random joke instead:''
        (if all_jokes = [] then [] else [all_jokes ! (random_draw env mod length all_jokes)]),
      w1\<lparr>log_file := Some (read_logs (log_file w) @
            [LlmFailure ''llm_selection_error'' (str_exn llm_error) ''chromadb_direct'',
             Query user_message ''error'' 0 (Some (str_exn fallback_error))]),
         calls := calls w1 @ [Search user_message 3]\<rparr>)"
    using llm_fallback_requery_raises [OF assms(2)] recommend_try_raise_log [OF assms(1)] by simp
  have mem: "all_jokes = [] \<or> all_jokes ! (random_draw env mod length all_jokes) \<in> set all_jokes"
  proof (cases "all_jokes = []")
    case False
    then have "random_draw env mod length all_jokes < length all_jokes" by simp
    then have "all_jokes ! (random_draw env mod length all_jokes) \<in> set all_jokes"
      by (rule nth_mem)
    then show ?thesis by (rule disjI2)
  qed simp
  from eq mem show ?thesis by (rule conjI)
qed

text \<open>Both queries of the collection raise; the draw 7 chooses the second of the two jokes.\<close>

theorem random_joke_when_requery_raises_witness:
  "recommend env_all_down msg_recommend [joke_cat_a, joke_dog] world0 =
     (Reply ''I'm having trouble processing your request. Here's a random joke instead:'' [joke_dog],
      \<lparr>log_file = Some [LlmFailure ''llm_selection_error'' ''collection unavailable'' ''chromadb_direct'',
                         Query msg_recommend ''error'' 0 (Some ''collection unavailable'')],
       calls = [Search msg_recommend 5, Search msg_recommend 3]\<rparr>)"
proof -
  have q: "collection_query env_all_down msg_recommend 3 = Inl search_error"
    by (simp add: env_all_down_def)
  have r: "random_draw env_all_down = 7" by (simp add: env_all_down_def)
  have n: "[joke_cat_a, joke_dog] ! (7 mod Suc (Suc 0)) = joke_dog" by code_simp
  from random_joke_when_requery_raises [where env = env_all_down and user_message = msg_recommend
      and all_jokes = "[joke_cat_a, joke_dog]" and w = world0,
      OF recommend_try_example_down [unfolded load_jokes_examples] q]
  show ?thesis by (simp add: r n world0_def read_logs_def search_error_def)
qed

section \<open>Query events\<close>

lemma counting_events:
  "counting env user_message all_jokes w = (answer, w') \<Longrightarrow>
     \<exists>ev. is_query ev \<and> read_logs (log_file w') = read_logs (log_file w) @ [ev]"
  by (auto simp: counting_def count_reply_def log_query_def log_interaction_def read_logs_def
      dest: extract_topic_log split: prod.splits if_splits)

lemma recommend_try_events:
  "recommend_try env user_message all_jokes w = (Inr answer, w') \<Longrightarrow>
     \<exists>ev. is_query ev \<and> read_logs (log_file w') = read_logs (log_file w) @ [ev]"
  by (auto simp: recommend_try_def search_jokes_by_query_def chat_completion_def Let_def
      log_query_def log_interaction_def read_logs_def split: sum.splits if_splits)

lemma llm_fallback_events:
  "llm_fallback env user_message all_jokes e w = (answer, w') \<Longrightarrow>
     \<exists>ev1 ev2. \<not> is_query ev1 \<and> is_query ev2 \<and>
        read_logs (log_file w') = read_logs (log_file w) @ [ev1, ev2]"
  by (auto simp: llm_fallback_def search_jokes_by_query_def Let_def log_llm_failure_def
      log_query_def log_interaction_def read_logs_def split: sum.splits)

lemma recommend_events:
  assumes "recommend env user_message all_jokes w = (answer, w')"
  shows "\<exists>evs. read_logs (log_file w') = read_logs (log_file w) @ evs \<and> length (filter is_query evs) = 1"
proof (cases "recommend_try env user_message all_jokes w")
  case (Pair r w1)
  show ?thesis
  proof (cases r)
    case (Inl e)
    with Pair assms have "llm_fallback env user_message all_jokes e w1 = (answer, w')"
      by (simp add: recommend_def)
    from llm_fallback_events [OF this] recommend_try_raise_log [of env user_message all_jokes w e w1]
      Pair Inl
    obtain ev1 ev2 where "\<not> is_query ev1" "is_query ev2"
      "read_logs (log_file w') = read_logs (log_file w) @ [ev1, ev2]" by auto
    then show ?thesis by (intro exI [of _ "[ev1, ev2]"]) simp
  next
    case (Inr a)
    with Pair assms have "recommend_try env user_message all_jokes w = (Inr answer, w')"
      by (simp add: recommend_def)
    from recommend_try_events [OF this] obtain ev where "is_query ev"
      "read_logs (log_file w') = read_logs (log_file w) @ [ev]" by auto
    then show ?thesis by (intro exI [of _ "[ev]"]) simp
  qed
qed

text \<open>
  C3, as amended. For a request whose message is a string that is not empty, the log
  after the request is the log before it followed by the events of the request, and:
  when the message is on the denylist, or the corpus is not empty and the counting or
  the recommendation branch handles the request, exactly one of these events is a
  query event, whatever the outcome; when the message is not on the denylist and the
  corpus is empty, there is no event; when the existence branch handles the request
  and its query of the collection raises, there is no event.
\<close>

theorem one_query_event_outside_existence:
  assumes "data ''message'' = Some (JStr user_message)" and "user_message \<noteq> []"
    and "ask_ai env data w = (answer, w')"
  shows "\<exists>evs. read_logs (log_file w') = read_logs (log_file w) @ evs \<and>
           (if nsfw_match user_message then length (filter is_query evs) = 1
            else if load_jokes env = [] then evs = []
            else if is_counting user_message \<or> \<not> is_existence user_message
              then length (filter is_query evs) = 1
            else (isl (collection_query env user_message 10) \<longrightarrow> evs = []))"
proof -
  have b: "ask_body env user_message w = (answer, w')"
    using assms by (simp add: ask_ai_string)
  consider (nsfw) "nsfw_match user_message"
    | (empty) "\<not> nsfw_match user_message" "load_jokes env = []"
    | (counting) "\<not> nsfw_match user_message" "load_jokes env \<noteq> []" "is_counting user_message"
    | (existence) "\<not> nsfw_match user_message" "load_jokes env \<noteq> []" "\<not> is_counting user_message"
        "is_existence user_message"
    | (recommend) "\<not> nsfw_match user_message" "load_jokes env \<noteq> []" "\<not> is_counting user_message"
        "\<not> is_existence user_message"
    by blast
  then show ?thesis
  proof cases
    case nsfw
    with b show ?thesis
      by (intro exI [of _ "[Query user_message ''nsfw_blocked'' 0 None]"])
        (auto simp: ask_body_def log_query_def log_interaction_def read_logs_def)
  next
    case empty
    with b show ?thesis by (intro exI [of _ "[]"]) (auto simp: ask_body_def)
  next
    case counting
    with b have "counting env user_message (load_jokes env) w = (answer, w')"
      by (simp add: ask_body_def Let_def)
    from counting_events [OF this] counting show ?thesis by force
  next
    case existence
    with b have "existence env user_message (load_jokes env) w = (answer, w')"
      by (simp add: ask_body_def Let_def)
    then have "log_file w' = log_file w"
      by (auto simp: existence_def search_jokes_by_query_def Let_def split: sum.splits if_splits)
    with existence show ?thesis by (intro exI [of _ "[]"]) simp
  next
    case recommend
    with b have "recommend env user_message (load_jokes env) w = (answer, w')"
      by (simp add: ask_body_def Let_def)
    from recommend_events [OF this] recommend show ?thesis by auto
  qed
qed

text \<open>
  A recommendation request with the model down: the log gains an \<^verbatim>\<open>llm_failure\<close> event
  and one query event.
\<close>

theorem one_query_event_outside_existence_witness:
  "\<exists>evs. read_logs (log_file (snd (ask_ai env_llm_down (ask_request msg_recommend) world0))) =
           read_logs (log_file world0) @ evs \<and> length (filter is_query evs) = 1"
proof -
  have j: "load_jokes env_llm_down \<noteq> []" by (simp add: load_jokes_examples)
  from one_query_event_outside_existence [where data = "ask_request msg_recommend"
      and user_message = msg_recommend and env = env_llm_down and w = world0
      and answer = "fst (ask_ai env_llm_down (ask_request msg_recommend) world0)"
      and w' = "snd (ask_ai env_llm_down (ask_request msg_recommend) world0)"]
    ask_request_message [of msg_recommend] msg_recommend_class j
  show ?thesis by simp
qed

text \<open>
  C3 as stated fails: the message is not empty, the existence branch handles the
  request, the query of the collection raises, and the log after the request is the
  log before it; no query event was emitted.
\<close>

theorem no_query_event_counterexample:
  "truthy (JStr msg_existence) \<and> is_existence msg_existence \<and>
   read_logs (log_file (snd (ask_ai env_all_down (ask_request msg_existence) world0))) =
     read_logs (log_file world0)"
  by code_simp

section \<open>The feedback endpoint and the input errors\<close>

lemma counting_not_error: "fst (counting env user_message all_jokes w) \<noteq> ErrorReply msg code"
  by (simp add: counting_def count_reply_def split: prod.splits)

lemma existence_not_error: "fst (existence env user_message all_jokes w) \<noteq> ErrorReply msg code"
  by (simp add: existence_def Let_def split: prod.splits sum.splits)

lemma recommend_not_error: "fst (recommend env user_message all_jokes w) \<noteq> ErrorReply msg code"
  by (simp add: recommend_def recommend_try_def llm_fallback_def Let_def split: prod.splits sum.splits)

lemma ask_body_not_400: "fst (ask_body env user_message w) \<noteq> ErrorReply msg 400"
  by (simp add: ask_body_def Let_def counting_not_error existence_not_error recommend_not_error)

lemma ask_ai_400_unchanged:
  assumes "fst (ask_ai env data w) = ErrorReply msg 400"
  shows "snd (ask_ai env data w) = w"
proof (cases "truthy (dict_get data ''message'' (JStr ''''))")
  case False
  then show ?thesis by (simp add: ask_ai_def)
next
  case True
  show ?thesis
  proof (cases "dict_get data ''message'' (JStr '''')")
    case (JStr s)
    with True assms ask_body_not_400 [of env s w msg] show ?thesis
      by (simp add: ask_ai_def)
  qed (use True in \<open>simp_all add: ask_ai_def\<close>)
qed

text \<open>
  C9, as amended. The feedback endpoint answers with the status 400 exactly when the
  rating is missing or falsy (\<^verbatim>\<open>null\<close>, \<^verbatim>\<open>false\<close>, 0, an empty string, list or object),
  and then the log is unchanged. With a truthy rating it writes one feedback event with
  the query id, the rating and the comment of the request (\<^verbatim>\<open>null\<close> for a missing query
  id, the empty string for a missing comment) and answers with the success message.
  An answer of the ask endpoint with the status 400 leaves the log unchanged as well:
  no query event is written for an input error.
\<close>

theorem feedback_requires_truthy_rating:
  "(case data ''rating'' of
      None \<Rightarrow> submit_feedback data w = (ErrorReply ''Rating is required'' 400, w)
    | Some rating \<Rightarrow>
        submit_feedback data w =
          (if truthy rating
           then (Success ''Thank you for your feedback!'',
                 w\<lparr>log_file := Some (read_logs (log_file w) @
                    [Feedback (dict_get data ''query_id'' JNull) rating
                              (dict_get data ''comment'' (JStr ''''))])\<rparr>)
           else (ErrorReply ''Rating is required'' 400, w)))
   \<and> (\<forall>msg. fst (ask_ai env data' w) = ErrorReply msg 400 \<longrightarrow> snd (ask_ai env data' w) = w)"
  using ask_ai_400_unchanged [of env data' w]
  by (simp add: submit_feedback_def Let_def log_feedback_def log_interaction_def dict_get_def
      split: option.splits)

text \<open>
  A rating of 5 is logged with its query id and the default comment; a request to the
  ask endpoint without a message is refused with the status 400 and logs nothing.
\<close>

theorem feedback_requires_truthy_rating_witness:
  "submit_feedback [''query_id'' \<mapsto> JStr ''q1'', ''rating'' \<mapsto> JNum 5] world0 =
     (Success ''Thank you for your feedback!'',
      \<lparr>log_file = Some [Feedback (JStr ''q1'') (JNum 5) (JStr '''')], calls = []\<rparr>)
   \<and> fst (ask_ai env_llm_down Map.empty world0) = ErrorReply ''No message provided'' 400
   \<and> snd (ask_ai env_llm_down Map.empty world0) = world0"
proof -
  have e: "fst (ask_ai env_llm_down Map.empty world0) = ErrorReply ''No message provided'' 400"
    by (simp add: ask_ai_def dict_get_def)
  from feedback_requires_truthy_rating [where data = "[''query_id'' \<mapsto> JStr ''q1'', ''rating'' \<mapsto> JNum 5]"
      and w = world0 and env = env_llm_down and data' = Map.empty] e
  show ?thesis by (simp add: world0_def read_logs_def dict_get_def)
qed

text \<open>
  C9 as stated fails: the rating is present in the request, with the value 0, and
  the answer is the status 400.
\<close>

theorem feedback_rating_zero_counterexample:
  "[''query_id'' \<mapsto> JStr ''q1'', ''rating'' \<mapsto> JNum 0] ''rating'' = Some (JNum 0) \<and>
   submit_feedback [''query_id'' \<mapsto> JStr ''q1'', ''rating'' \<mapsto> JNum 0] world0 =
     (ErrorReply ''Rating is required'' 400, world0)"
  by (simp add: submit_feedback_def dict_get_def)

end
